theory Spec2Isabelle
  imports Main
begin

section \<open>Python strings and paths\<close>

text \<open>
  A Python \<open>str\<close> is modelled as a \<open>string\<close>, one \<open>char\<close> per character (so the model
  covers text whose code points are below 256). \<open>isspace\<close> is \<open>str.isspace\<close> on
  that range, \<open>strip\<close> is \<open>str.strip()\<close>, and \<open>str_nat\<close> is the decimal text an
  f-string writes for a non-negative \<open>int\<close>.
\<close>

definition isspace :: "char \<Rightarrow> bool" where
  "isspace c = (let n = (of_char c :: nat) in
      (9 \<le> n \<and> n \<le> 13) \<or> (28 \<le> n \<and> n \<le> 32) \<or> n = 133 \<or> n = 160)"

definition strip :: "string \<Rightarrow> string" where
  "strip s = rev (dropWhile isspace (rev (dropWhile isspace s)))"

definition digit :: "nat \<Rightarrow> char" where
  "digit d = char_of (48 + d)"

fun str_nat :: "nat \<Rightarrow> string" where
  "str_nat n = (if n < 10 then [digit n] else str_nat (n div 10) @ [digit (n mod 10)])"

declare str_nat.simps [simp del]

text \<open>
  A \<open>pathlib.Path\<close> is modelled by its string form. \<open>path_name\<close> is \<open>Path.name\<close>
  (the last component), \<open>path_stem\<close> is \<open>Path.stem\<close> (the name without its last suffix;
  a dot in first or last position starts no suffix), \<open>relative_to\<close> is
  \<open>Path.relative_to\<close> (\<open>None\<close> where Python raises ValueError), \<open>parts\<close> is
  \<open>Path.parts\<close> of a relative path and \<open>joinpath\<close> is the \<open>/\<close> operator.
\<close>

definition path_name :: "string \<Rightarrow> string" where
  "path_name p = rev (takeWhile (\<lambda>c. c \<noteq> CHR ''/'') (rev p))"

definition rfind_dot :: "string \<Rightarrow> nat option" where
  "rfind_dot s = (if CHR ''.'' \<in> set s
       then Some (length s - 1 - length (takeWhile (\<lambda>c. c \<noteq> CHR ''.'') (rev s)))
       else None)"

definition path_stem :: "string \<Rightarrow> string" where
  "path_stem p = (let n = path_name p in
     case rfind_dot n of
       None \<Rightarrow> n
     | Some i \<Rightarrow> if 0 < i \<and> i < length n - 1 then take i n else n)"

definition relative_to :: "string \<Rightarrow> string \<Rightarrow> string option" where
  "relative_to p base =
     (if take (length base + 1) p = base @ ''/'' \<and> length base + 1 < length p
      then Some (drop (length base + 1) p) else None)"

primrec split_on :: "char \<Rightarrow> string \<Rightarrow> string \<Rightarrow> string list" where
  "split_on sep cur [] = [rev cur]"
| "split_on sep cur (c # cs) =
     (if c = sep then rev cur # split_on sep [] cs else split_on sep (c # cur) cs)"

definition parts :: "string \<Rightarrow> string list" where
  "parts p = filter (\<lambda>s. s \<noteq> []) (split_on (CHR 0x2F) [] p)"

definition joinpath :: "string \<Rightarrow> string \<Rightarrow> string" where
  "joinpath a b = (if take 1 b = ''/'' then b else a @ ''/'' @ b)"

section \<open>Documents and configuration\<close>

text \<open>
  A langchain \<open>Document\<close>: the text and the metadata dictionary. A key that one of the two
  indexers does not set, or that is set only when a chunk is tagged, is an option.
\<close>

record document =
  page_content :: string
  source :: string
  filename :: string
  file_path :: string
  file_size :: nat
  category :: string
  file_hash :: "string option"
  processed_at :: "string option"
  chunk_id :: "string option"
  chunk_index :: "nat option"
  total_chunks :: "nat option"

text \<open>
  One entry of \<open>data_sources.local_folders\<close> and the \<open>processing\<close> section of
  \<open>auto_update_config.yaml\<close>. A key read with \<open>dict.get(key, default)\<close> is an option;
  \<open>folder_config['path']\<close> raises KeyError when the key is missing.
\<close>

record folder_config =
  path :: "string option"
  enabled :: "bool option"
  watch_extensions :: "string list option"

record config =
  local_folders :: "folder_config list"
  chunk_size :: "nat option"
  chunk_overlap :: "nat option"
  min_chunk_size :: "int option"

section \<open>The world outside the repository\<close>

text \<open>
  What \<open>update_index.py\<close> calls and does not define is a field of \<open>world\<close>:
  the file system (\<open>Path.exists\<close>, \<open>Path.rglob\<close>, \<open>Path.is_file\<close>, reading a file, how
  the writing of the cache file ends, whether the result file can be written),
  \<open>hashlib.md5\<close>, the UTF-8 decoder of \<open>read_text(errors='ignore')\<close>, the strict decoder
  of \<open>read_text\<close> in \<open>build_index.py\<close> (\<open>None\<close> where it raises), the clock, langchain's
  \<open>RecursiveCharacterTextSplitter\<close> (\<open>split_text\<close>, given chunk size, overlap and
  separators) and the vector store's \<open>add_documents\<close> (the store after the call, and
  whether the call returned rather than raised).
\<close>

text \<open>
  \<open>open(cache_file, 'w')\<close> followed by \<open>json.dump\<close> ends in one of three ways: the file
  is written, the file cannot be opened and stays as it is, or the file is opened, which
  empties it, and the writing fails.
\<close>

datatype save_outcome = Saved | OpenFailed | WriteFailed

record 'db world =
  script_dir :: string
  path_exists :: "string \<Rightarrow> bool"
  rglob :: "string \<Rightarrow> string \<Rightarrow> string list"
  is_file :: "string \<Rightarrow> bool"
  read_bytes :: "string \<Rightarrow> string option"
  md5_hexdigest :: "string \<Rightarrow> string"
  utf8_decode :: "string \<Rightarrow> string"
  utf8_decode_strict :: "string \<Rightarrow> string option"
  now :: string
  split_text :: "nat \<Rightarrow> nat \<Rightarrow> string list \<Rightarrow> string \<Rightarrow> string list"
  add_documents :: "'db \<Rightarrow> document list \<Rightarrow> 'db \<times> bool"
  cache_write :: save_outcome
  results_writable :: bool

definition separators :: "string list" where
  "separators = [[CHR 0x0A, CHR 0x0A], [CHR 0x0A], ''. '', ''! '', ''? '', '' '', '''']"

text \<open>
  \<open>text_splitter.split_documents([document])\<close>: one chunk document per piece of text the
  splitter returns, each with a copy of the document's metadata.
\<close>

definition split_documents :: "'db world \<Rightarrow> nat \<Rightarrow> nat \<Rightarrow> document \<Rightarrow> document list" where
  "split_documents w csize coverlap d =
     map (\<lambda>t. d\<lparr>page_content := t\<rparr>) (split_text w csize coverlap separators (page_content d))"

section \<open>Tagging and filtering the chunks of one document\<close>

text \<open>
  The loop \<open>for i, chunk in enumerate(chunks)\<close> of \<open>process_file\<close> (update_index.py) and
  of \<open>split_documents\<close> (build_index.py): \<open>i\<close> counts every chunk, kept or not,
  \<open>n\<close> is \<open>len(chunks)\<close>, \<open>m\<close> is the minimum size and \<open>pre\<close> is the text before the
  underscore of the chunk id.
\<close>

fun tag_chunks :: "string \<Rightarrow> int \<Rightarrow> nat \<Rightarrow> nat \<Rightarrow> document list \<Rightarrow> document list" where
  "tag_chunks pre m n i [] = []"
| "tag_chunks pre m n i (c # cs) =
     (if m \<le> int (length (strip (page_content c)))
      then c\<lparr>chunk_id := Some (pre @ ''_'' @ str_nat i),
              chunk_index := Some i,
              total_chunks := Some n\<rparr> # tag_chunks pre m n (Suc i) cs
      else tag_chunks pre m n (Suc i) cs)"

definition filter_chunks :: "string \<Rightarrow> int \<Rightarrow> document list \<Rightarrow> document list" where
  "filter_chunks pre m chunks = tag_chunks pre m (length chunks) 0 chunks"

subsection \<open>update_index.py: AutoUpdateManager.process_file\<close>

text \<open>
  The function in three steps, named after its local variables: \<open>file_document\<close> is
  \<open>document\<close>, \<open>file_chunks\<close> is \<open>chunks\<close> (the splitter's output, before the
  filter) and \<open>min_size\<close> is \<open>min_size\<close>. The value \<open>None\<close> stands for the two ways
  to leave early with the empty list: the stripped content is empty, or an exception was
  raised (the file cannot be read, the path is not under the script directory), which
  the function's own handler catches and logs.
\<close>

definition file_document :: "'db world \<Rightarrow> string \<Rightarrow> string \<Rightarrow> document option" where
  "file_document w fp fh =
     (case read_bytes w fp of
        None \<Rightarrow> None
      | Some bytes \<Rightarrow>
          let content = strip (utf8_decode w bytes) in
          if content = [] then None
          else
            (case relative_to fp (script_dir w) of
               None \<Rightarrow> None
             | Some relative_path \<Rightarrow>
                 Some \<lparr>page_content = content,
                       source = relative_path,
                       filename = path_name fp,
                       file_path = fp,
                       file_size = length content,
                       category = (if 1 < length (parts relative_path)
                                   then hd (parts relative_path) else ''root''),
                       file_hash = Some fh,
                       processed_at = Some (now w),
                       chunk_id = None, chunk_index = None, total_chunks = None\<rparr>))"

definition file_chunks :: "'db world \<Rightarrow> config \<Rightarrow> string \<Rightarrow> string \<Rightarrow> document list option" where
  "file_chunks w cfg fp fh =
     (case file_document w fp fh of
        None \<Rightarrow> None
      | Some doc \<Rightarrow>
          Some (split_documents w
                  (case chunk_size cfg of None \<Rightarrow> 2000 | Some n \<Rightarrow> n)
                  (case chunk_overlap cfg of None \<Rightarrow> 200 | Some n \<Rightarrow> n) doc))"

definition min_size :: "config \<Rightarrow> int" where
  "min_size cfg = (case min_chunk_size cfg of None \<Rightarrow> 10 | Some m \<Rightarrow> m)"

definition process_file :: "'db world \<Rightarrow> config \<Rightarrow> string \<Rightarrow> string \<Rightarrow> document list" where
  "process_file w cfg fp fh =
     (case file_chunks w cfg fp fh of
        None \<Rightarrow> []
      | Some chunks \<Rightarrow> filter_chunks (path_stem fp) (min_size cfg) chunks)"

subsection \<open>build_index.py: KnowledgeBaseIndexer.split_documents\<close>

text \<open>
  The one-shot indexer splits with fixed sizes (2000, 200), keeps chunks of at least 10
  stripped characters and writes the chunk id from the metadata's \<open>filename\<close>.
\<close>

definition kb_split_document :: "'db world \<Rightarrow> document \<Rightarrow> document list" where
  "kb_split_document w d = filter_chunks (filename d) 10 (split_documents w 2000 200 d)"

definition kb_split_documents :: "'db world \<Rightarrow> document list \<Rightarrow> document list" where
  "kb_split_documents w docs = concat (map (kb_split_document w) docs)"

section \<open>update_index.py: AutoUpdateManager\<close>

text \<open>
  The state of a manager: the cache dictionary in memory, the content of
  \<open>processed_files_cache.json\<close> (\<open>None\<close> while the file does not exist or holds no
  complete JSON text: \<open>_load_processed_files\<close> starts from the empty dictionary in both
  cases) and the vector store. \<open>stats\<close> is the dictionary \<open>run_update\<close> returns, without its timestamps.
\<close>

record 'db manager =
  processed_files_cache :: "string \<rightharpoonup> string"
  cache_file :: "(string \<rightharpoonup> string) option"
  vector_db :: 'db

record stats =
  files_processed :: nat
  chunks_added :: nat
  errors :: nat
  new_files :: "(string \<times> nat) list"

datatype scan_error = KeyError | ValueError

definition load_processed_files :: "(string \<rightharpoonup> string) option \<Rightarrow> (string \<rightharpoonup> string)" where
  "load_processed_files f = (case f of None \<Rightarrow> Map.empty | Some c \<Rightarrow> c)"

text \<open>
  A failure to write the cache file is caught and logged. The file keeps its content
  when it could not be opened; when the writing fails after the file was opened with
  mode \<open>'w'\<close>, what is left is empty or cut off and no longer loads.
\<close>

definition save_processed_files :: "'db world \<Rightarrow> 'db manager \<Rightarrow> 'db manager" where
  "save_processed_files w m =
     (case cache_write w of
        Saved \<Rightarrow> m\<lparr>cache_file := Some (processed_files_cache m)\<rparr>
      | OpenFailed \<Rightarrow> m
      | WriteFailed \<Rightarrow> m\<lparr>cache_file := None\<rparr>)"

text \<open>A file that cannot be read is logged and hashes to the empty string.\<close>

definition calculate_file_hash :: "'db world \<Rightarrow> string \<Rightarrow> string" where
  "calculate_file_hash w fp =
     (case read_bytes w fp of None \<Rightarrow> [] | Some bytes \<Rightarrow> md5_hexdigest w bytes)"

text \<open>
  \<open>scan_for_new_files\<close>: three nested loops, over the folders, over the extensions of a
  folder and over the paths \<open>rglob\<close> yields. An exception (KeyError for a folder without
  \<open>path\<close>, ValueError for a file outside the script directory) leaves all of them.
\<close>

fun scan_files ::
  "'db world \<Rightarrow> (string \<rightharpoonup> string) \<Rightarrow> string list \<Rightarrow> scan_error + (string \<times> string) list" where
  "scan_files w cache [] = Inr []"
| "scan_files w cache (fp # fps) =
     (if is_file w fp
      then (let fh = calculate_file_hash w fp in
            case relative_to fp (script_dir w) of
              None \<Rightarrow> Inl ValueError
            | Some file_key \<Rightarrow>
                (case scan_files w cache fps of
                   Inl e \<Rightarrow> Inl e
                 | Inr rest \<Rightarrow>
                     if cache file_key = None \<or> cache file_key \<noteq> Some fh
                     then Inr ((fp, fh) # rest) else Inr rest))
      else scan_files w cache fps)"

fun scan_extensions ::
  "'db world \<Rightarrow> (string \<rightharpoonup> string) \<Rightarrow> string \<Rightarrow> string list \<Rightarrow> scan_error + (string \<times> string) list" where
  "scan_extensions w cache folder_path [] = Inr []"
| "scan_extensions w cache folder_path (ext # exts) =
     (case scan_files w cache (rglob w folder_path (''*'' @ ext)) of
        Inl e \<Rightarrow> Inl e
      | Inr found \<Rightarrow>
          (case scan_extensions w cache folder_path exts of
             Inl e \<Rightarrow> Inl e
           | Inr rest \<Rightarrow> Inr (found @ rest)))"

fun scan_folders ::
  "'db world \<Rightarrow> (string \<rightharpoonup> string) \<Rightarrow> folder_config list \<Rightarrow> scan_error + (string \<times> string) list" where
  "scan_folders w cache [] = Inr []"
| "scan_folders w cache (fc # fcs) =
     (if \<not> (case enabled fc of None \<Rightarrow> True | Some b \<Rightarrow> b) then scan_folders w cache fcs
      else
        (case path fc of
           None \<Rightarrow> Inl KeyError
         | Some p \<Rightarrow>
             let folder_path = joinpath (script_dir w) p in
             if \<not> path_exists w folder_path then scan_folders w cache fcs
             else
               (case scan_extensions w cache folder_path
                       (case watch_extensions fc of None \<Rightarrow> [''.txt'', ''.md''] | Some es \<Rightarrow> es) of
                  Inl e \<Rightarrow> Inl e
                | Inr found \<Rightarrow>
                    (case scan_folders w cache fcs of
                       Inl e \<Rightarrow> Inl e
                     | Inr rest \<Rightarrow> Inr (found @ rest)))))"

definition scan_for_new_files ::
  "'db world \<Rightarrow> config \<Rightarrow> (string \<rightharpoonup> string) \<Rightarrow> scan_error + (string \<times> string) list" where
  "scan_for_new_files w cfg cache = scan_folders w cache (local_folders cfg)"

text \<open>
  \<open>update_vector_db\<close>: nothing to do for an empty list; otherwise one call of
  \<open>add_documents\<close>, whose exception is caught, logged and reported as the count 0.
\<close>

definition update_vector_db :: "'db world \<Rightarrow> 'db manager \<Rightarrow> document list \<Rightarrow> 'db manager \<times> nat" where
  "update_vector_db w m new_chunks =
     (if new_chunks = [] then (m, 0)
      else
        (case add_documents w (vector_db m) new_chunks of
           (db, returned) \<Rightarrow>
             (m\<lparr>vector_db := db\<rparr>, if returned then length new_chunks else 0)))"

text \<open>
  The loop \<open>for file_path, file_hash in new_files\<close> of \<open>run_update\<close>, on the triple of
  \<open>all_chunks\<close>, \<open>stats\<close> and the cache. \<open>process_file\<close> raises nothing; the one
  statement of the body that can raise is \<open>relative_to\<close>, after the chunks were added
  and the file was counted, and the loop's handler then counts an error.
\<close>

fun process_files ::
  "'db world \<Rightarrow> config \<Rightarrow> (string \<times> string) list \<Rightarrow>
     document list \<times> stats \<times> (string \<rightharpoonup> string) \<Rightarrow>
     document list \<times> stats \<times> (string \<rightharpoonup> string)" where
  "process_files w cfg [] acc = acc"
| "process_files w cfg ((fp, fh) # rest) (all_chunks, st, cache) =
     (let chunks = process_file w cfg fp fh in
      if chunks = [] then process_files w cfg rest (all_chunks, st, cache)
      else
        (case relative_to fp (script_dir w) of
           None \<Rightarrow>
             process_files w cfg rest
               (all_chunks @ chunks,
                st\<lparr>files_processed := files_processed st + 1, errors := errors st + 1\<rparr>,
                cache)
         | Some file_key \<Rightarrow>
             process_files w cfg rest
               (all_chunks @ chunks,
                st\<lparr>files_processed := files_processed st + 1,
                   new_files := new_files st @ [(file_key, length chunks)]\<rparr>,
                cache(file_key \<mapsto> fh))))"

definition stats0 :: stats where
  "stats0 = \<lparr>files_processed = 0, chunks_added = 0, errors = 0, new_files = []\<rparr>"

definition run_update :: "'db world \<Rightarrow> config \<Rightarrow> 'db manager \<Rightarrow> 'db manager \<times> stats" where
  "run_update w cfg m =
     (case scan_for_new_files w cfg (processed_files_cache m) of
        Inl e \<Rightarrow> (m, stats0\<lparr>errors := 1\<rparr>)
      | Inr found \<Rightarrow>
          if found = [] then (m, stats0)
          else
            (case process_files w cfg found ([], stats0, processed_files_cache m) of
               (all_chunks, st, cache) \<Rightarrow>
                 let m1 = m\<lparr>processed_files_cache := cache\<rparr> in
                 if all_chunks \<noteq> []
                 then (case update_vector_db w m1 all_chunks of
                         (m2, added) \<Rightarrow> (save_processed_files w m2, st\<lparr>chunks_added := added\<rparr>))
                 else (save_processed_files w m1, st)))"

text \<open>
  \<open>main\<close>, by its exit code. The configuration is \<open>None\<close> when the constructor of the
  manager raises (no configuration file, or a component that cannot be initialised); the
  manager starts from the cache file and the store on disk. Any exception, also of
  writing \<open>last_update_results.json\<close>, leads to \<open>sys.exit(1)\<close>.
\<close>

definition main :: "'db world \<Rightarrow> config option \<Rightarrow> (string \<rightharpoonup> string) option \<Rightarrow> 'db \<Rightarrow> int" where
  "main w cfg_file disk_cache db =
     (case cfg_file of
        None \<Rightarrow> 1
      | Some cfg \<Rightarrow>
          (case run_update w cfg \<lparr>processed_files_cache = load_processed_files disk_cache,
                                   cache_file = disk_cache, vector_db = db\<rparr> of
             (m, results) \<Rightarrow>
               if \<not> results_writable w then 1
               else if 0 < errors results then 1 else 0))"

section \<open>update_index.py: one execution of the script\<close>



section \<open>scheduler.py: UpdateScheduler.interval_worker\<close>

text \<open>
  \<open>interval_minutes\<close> as YAML gives it: an integer, or a float, written here by its
  decimal digits and the number of digits after the point (\<open>FloatNum 5 1\<close> is 0.5).
  \<open>interval_seconds\<close> is \<open>interval_minutes * 60\<close>, with 60 minutes when the key is missing.
\<close>

datatype number = IntNum int | FloatNum int nat

fun interval_seconds :: "number option \<Rightarrow> number" where
  "interval_seconds None = IntNum (60 * 60)"
| "interval_seconds (Some (IntNum n)) = IntNum (n * 60)"
| "interval_seconds (Some (FloatNum d e)) = FloatNum (d * 60) e"

text \<open>
  The worker runs in a thread of its own and reads the time and the flag
  \<open>self.running\<close>, which the main thread clears in \<open>stop\<close>. Time is counted in seconds:
  \<open>running t\<close> is the flag as the worker reads it at second \<open>t\<close>, \<open>run_seconds c\<close> is the
  time \<open>run_update_script\<close> takes in cycle \<open>c\<close>, and \<open>run_raises c\<close> says that an exception
  escapes from that call.
\<close>

record timeline =
  running :: "nat \<Rightarrow> bool"
  run_seconds :: "nat \<Rightarrow> nat"
  run_raises :: "nat \<Rightarrow> bool"

text \<open>
  \<open>for _ in range(n): if not self.running: break; time.sleep(1)\<close>, from second \<open>t\<close>:
  the second at which the loop is left.
\<close>

fun wait_interval :: "(nat \<Rightarrow> bool) \<Rightarrow> nat \<Rightarrow> nat \<Rightarrow> nat" where
  "wait_interval flag 0 t = t"
| "wait_interval flag (Suc n) t = (if \<not> flag t then t else wait_interval flag n (Suc t))"

text \<open>
  \<open>while self.running\<close>, with one unit of fuel for each round: the second at which the
  loop is left and the number of cycles started, or \<open>None\<close> when the fuel does not reach
  the end of the loop. \<open>range\<close> of a float raises \<open>TypeError\<close>; every exception of a
  round is caught and followed by \<open>time.sleep(60)\<close>.
\<close>

fun interval_worker ::
  "nat \<Rightarrow> timeline \<Rightarrow> number option \<Rightarrow> nat \<Rightarrow> nat \<Rightarrow> (nat \<times> nat) option" where
  "interval_worker 0 tm im c t = None"
| "interval_worker (Suc fuel) tm im c t =
     (if \<not> running tm t then Some (t, c)
      else
        let t1 = t + run_seconds tm c in
        if run_raises tm c then interval_worker fuel tm im (Suc c) (t1 + 60)
        else
          (case interval_seconds im of
             FloatNum d e \<Rightarrow> interval_worker fuel tm im (Suc c) (t1 + 60)
           | IntNum n \<Rightarrow>
               interval_worker fuel tm im (Suc c) (wait_interval (running tm) (nat n) t1)))"

section \<open>build_index.py: KnowledgeBaseIndexer.load_documents\<close>

text \<open>
  One round of the loop over \<open>rglob("*.txt")\<close>: the document built for the file
  \<open>fp\<close> under the knowledge base directory \<open>kb\<close>, or \<open>None\<close> when the file is skipped
  (it is no file, it is empty after stripping, or an exception was caught and printed:
  the file cannot be read, it is not valid UTF-8, or it does not lie under \<open>kb\<close>).
\<close>

definition kb_load_document :: "'db world \<Rightarrow> string \<Rightarrow> string \<Rightarrow> document option" where
  "kb_load_document w kb fp =
     (if \<not> is_file w fp then None
      else
        (case read_bytes w fp of
           None \<Rightarrow> None
         | Some bytes \<Rightarrow>
             (case utf8_decode_strict w bytes of
                None \<Rightarrow> None
              | Some decoded \<Rightarrow>
                  let content = strip decoded in
                  if content = [] then None
                  else
                    (case relative_to fp kb of
                       None \<Rightarrow> None
                     | Some relative_path \<Rightarrow>
                         Some \<lparr>page_content = content,
                               source = relative_path,
                               filename = path_name fp,
                               file_path = fp,
                               file_size = length content,
                               category = (if 1 < length (parts relative_path)
                                           then hd (parts relative_path) else ''root''),
                               file_hash = None,
                               processed_at = None,
                               chunk_id = None, chunk_index = None,
                               total_chunks = None\<rparr>))))"

section \<open>A small installation\<close>

text \<open>
  A concrete world on which the functions can be run: the script directory \<open>/srv\<close> with
  one watched folder \<open>docs\<close> holding four text files, of which \<open>notes.txt\<close> has three
  lines (a long one, a short one, a long one), \<open>locked.txt\<close> cannot be read,
  \<open>blank.txt\<close> holds only spaces and \<open>short.txt\<close> holds one word. The stand-in for the text splitter cuts at line
  breaks, the stand-in for the digest prefixes the content, and the store is the list
  of the documents added so far.
\<close>

definition example_split :: "nat \<Rightarrow> nat \<Rightarrow> string list \<Rightarrow> string \<Rightarrow> string list" where
  "example_split csize coverlap seps t = split_on (CHR 0x0A) [] t"

definition example_world :: "document list world" where
  "example_world =
     \<lparr>script_dir = ''/srv'',
      path_exists = (\<lambda>p. p = ''/srv/docs''),
      rglob = (\<lambda>d pat. if d = ''/srv/docs'' \<and> pat = ''*.txt''
                 then [''/srv/docs/notes.txt'', ''/srv/docs/locked.txt'', ''/srv/docs/blank.txt'',
                       ''/srv/docs/short.txt'']
                 else []),
      is_file = (\<lambda>p. True),
      read_bytes = (\<lambda>p. if p = ''/srv/docs/notes.txt''
                      then Some (''first paragraph'' @ [CHR 0x0A] @ ''mid'' @ [CHR 0x0A] @ ''third paragraph'')
                      else if p = ''/srv/docs/blank.txt'' then Some ''   ''
                      else if p = ''/srv/docs/short.txt'' then Some ''tiny'' else None),
      md5_hexdigest = (\<lambda>b. ''md5:'' @ b),
      utf8_decode = (\<lambda>b. b),
      utf8_decode_strict = (\<lambda>b. Some b),
      now = ''2024-01-01T00:00:00'',
      split_text = example_split,
      add_documents = (\<lambda>db ds. (db @ ds, True)),
      cache_write = Saved,
      results_writable = True\<rparr>"

definition example_config :: config where
  "example_config =
     \<lparr>local_folders = [\<lparr>path = Some ''docs'', enabled = None, watch_extensions = None\<rparr>],
      chunk_size = None, chunk_overlap = None, min_chunk_size = None\<rparr>"

definition example_manager :: "document list manager" where
  "example_manager = \<lparr>processed_files_cache = Map.empty, cache_file = None, vector_db = []\<rparr>"

definition notes_txt :: string where
  "notes_txt = ''/srv/docs/notes.txt''"

definition notes_hash :: string where
  "notes_hash = calculate_file_hash example_world notes_txt"

definition notes_doc :: document where
  "notes_doc = the (kb_load_document example_world ''/srv/docs'' notes_txt)"

text \<open>
  A timeline for the scheduler: every run of the update script takes no time and raises
  nothing, and the flag is cleared at second 5.
\<close>

definition example_timeline :: timeline where
  "example_timeline =
     \<lparr>running = (\<lambda>t. t < 5), run_seconds = (\<lambda>c. 0), run_raises = (\<lambda>c. False)\<rparr>"

section \<open>Decimal text is injective\<close>

lemma digit_inj: "a < 10 \<Longrightarrow> b < 10 \<Longrightarrow> digit a = digit b \<Longrightarrow> a = b"
proof -
  assume a: "a < 10" and b: "b < 10" and e: "digit a = digit b"
  from e have "(of_char (digit a) :: nat) = of_char (digit b)" by simp
  then have "(48 + a) mod 256 = (48 + b) mod 256" by (simp only: digit_def of_char_of)
  with a b show "a = b" by simp
qed

lemma str_nat_nonempty: "str_nat n \<noteq> []"
  by (subst str_nat.simps) simp

lemma str_nat_length_one: "length (str_nat n) = 1 \<Longrightarrow> n < 10"
  by (subst (asm) str_nat.simps) (auto simp: str_nat_nonempty split: if_splits)

lemma str_nat_inj: "str_nat a = str_nat b \<Longrightarrow> a = b"
proof (induction a arbitrary: b rule: str_nat.induct)
  case (1 n)
  show ?case
  proof (cases "n < 10")
    case True
    then have sn: "str_nat n = [digit n]" by (subst str_nat.simps) simp
    with "1.prems" have "str_nat b = [digit n]" by simp
    then have "length (str_nat b) = 1" by simp
    then have b: "b < 10" by (rule str_nat_length_one)
    then have "str_nat b = [digit b]" by (subst str_nat.simps) simp
    with sn "1.prems" have "digit n = digit b" by simp
    with True b show ?thesis by (rule digit_inj)
  next
    case False
    then have sn: "str_nat n = str_nat (n div 10) @ [digit (n mod 10)]"
      by (subst str_nat.simps) simp
    have b: "\<not> b < 10"
    proof
      assume "b < 10"
      then have "str_nat b = [digit b]" by (subst str_nat.simps) simp
      with sn "1.prems" have "str_nat (n div 10) = []" by simp
      then show False by (simp add: str_nat_nonempty)
    qed
    then have sb: "str_nat b = str_nat (b div 10) @ [digit (b mod 10)]"
      by (subst str_nat.simps) simp
    from sn sb "1.prems" have e1: "str_nat (n div 10) = str_nat (b div 10)"
      and e2: "digit (n mod 10) = digit (b mod 10)" by simp_all
    from "1.IH" [OF False e1] have d: "n div 10 = b div 10" .
    have m: "n mod 10 = b mod 10" using e2 by (intro digit_inj) simp_all
    from d m show ?thesis by (metis div_mult_mod_eq)
  qed
qed

lemma tag_chunks_content:
  "map page_content (tag_chunks pre m n i cs) =
     filter (\<lambda>t. m \<le> int (length (strip t))) (map page_content cs)"
  by (induction cs arbitrary: i) simp_all

lemma tag_chunks_member:
  "d \<in> set (tag_chunks pre m n i cs) \<Longrightarrow>
     \<exists>j. j < length cs \<and> d = (cs ! j)\<lparr>chunk_id := Some (pre @ ''_'' @ str_nat (i + j)),
                                       chunk_index := Some (i + j), total_chunks := Some n\<rparr>
         \<and> m \<le> int (length (strip (page_content (cs ! j))))"
proof (induction cs arbitrary: i)
  case Nil
  then show ?case by simp
next
  case (Cons c cs)
  show ?case
  proof (cases "d \<in> set (tag_chunks pre m n (Suc i) cs)")
    case True
    from Cons.IH [OF True] obtain j where "j < length cs"
      "d = (cs ! j)\<lparr>chunk_id := Some (pre @ ''_'' @ str_nat (Suc i + j)),
                     chunk_index := Some (Suc i + j), total_chunks := Some n\<rparr>"
      "m \<le> int (length (strip (page_content (cs ! j))))" by blast
    then show ?thesis by (intro exI [of _ "Suc j"]) simp
  next
    case False
    with Cons.prems show ?thesis by (intro exI [of _ 0]) (auto split: if_splits)
  qed
qed

lemma tag_chunks_index_sorted:
  "sorted_wrt (<) (map (\<lambda>d. the (chunk_index d)) (tag_chunks pre m n i cs))"
proof (induction cs arbitrary: i)
  case Nil
  then show ?case by simp
next
  case (Cons c cs)
  have "\<And>d. d \<in> set (tag_chunks pre m n (Suc i) cs) \<Longrightarrow> i < the (chunk_index d)"
    by (drule tag_chunks_member) auto
  with Cons.IH [of "Suc i"] show ?case by auto
qed


lemma tag_chunks_ids_only_text:
  "map page_content cs = map page_content cs' \<Longrightarrow>
     map chunk_id (tag_chunks pre m n i cs) = map chunk_id (tag_chunks pre m n i cs')"
proof (induction cs arbitrary: cs' i)
  case Nil
  then show ?case by simp
next
  case (Cons c cs)
  then obtain c' ds where cs': "cs' = c' # ds" by (cases cs') auto
  with Cons.prems have "page_content c = page_content c'"
    and "map page_content cs = map page_content ds" by simp_all
  with Cons.IH [of ds "Suc i"] cs' show ?case by simp
qed

lemma tag_chunks_distinct: "distinct (map chunk_id (tag_chunks pre m n i cs))"
proof (induction cs arbitrary: i)
  case Nil
  then show ?case by simp
next
  case (Cons c cs)
  have "Some (pre @ ''_'' @ str_nat i) \<notin> chunk_id ` set (tag_chunks pre m n (Suc i) cs)"
  proof
    assume "Some (pre @ ''_'' @ str_nat i) \<in> chunk_id ` set (tag_chunks pre m n (Suc i) cs)"
    then obtain d where d: "d \<in> set (tag_chunks pre m n (Suc i) cs)"
      and e: "chunk_id d = Some (pre @ ''_'' @ str_nat i)" by auto
    from tag_chunks_member [OF d] obtain j
      where "chunk_id d = Some (pre @ ''_'' @ str_nat (Suc i + j))" by auto
    with e have "str_nat i = str_nat (Suc i + j)" by simp
    then have "i = Suc i + j" by (rule str_nat_inj)
    then show False by simp
  qed
  with Cons.IH [of "Suc i"] show ?case by simp
qed

lemma process_file_unfold:
  "process_file w cfg fp fh =
     (case file_chunks w cfg fp fh of
        None \<Rightarrow> []
      | Some chunks \<Rightarrow> tag_chunks (path_stem fp) (min_size cfg) (length chunks) 0 chunks)"
  by (simp add: process_file_def filter_chunks_def split: option.splits)

lemma process_file_member:
  assumes "d \<in> set (process_file w cfg fp fh)"
  shows "\<exists>chunks i. file_chunks w cfg fp fh = Some chunks \<and> i < length chunks \<and>
           d = (chunks ! i)\<lparr>chunk_id := Some (path_stem fp @ ''_'' @ str_nat i),
                            chunk_index := Some i,
                            total_chunks := Some (length chunks)\<rparr> \<and>
           min_size cfg \<le> int (length (strip (page_content (chunks ! i))))"
proof (cases "file_chunks w cfg fp fh")
  case None
  with assms show ?thesis by (simp add: process_file_unfold)
next
  case (Some chunks)
  with assms have "d \<in> set (tag_chunks (path_stem fp) (min_size cfg) (length chunks) 0 chunks)"
    by (simp add: process_file_unfold)
  from tag_chunks_member [OF this] Some show ?thesis by auto
qed

lemma kb_split_document_member:
  assumes "d \<in> set (kb_split_document w doc)"
  shows "\<exists>i. i < length (split_documents w 2000 200 doc) \<and>
           d = (split_documents w 2000 200 doc ! i)
                 \<lparr>chunk_id := Some (filename doc @ ''_'' @ str_nat i),
                  chunk_index := Some i,
                  total_chunks := Some (length (split_documents w 2000 200 doc))\<rparr> \<and>
           10 \<le> length (strip (page_content (split_documents w 2000 200 doc ! i)))"
proof -
  from assms have "d \<in> set (tag_chunks (filename doc) 10
      (length (split_documents w 2000 200 doc)) 0 (split_documents w 2000 200 doc))"
    by (simp add: kb_split_document_def filter_chunks_def)
  from tag_chunks_member [OF this] show ?thesis by auto
qed

lemma file_chunks_text:
  "map_option (map page_content) (file_chunks (w\<lparr>now := t\<rparr>) cfg fp fh') =
   map_option (map page_content) (file_chunks w cfg fp fh)"
  by (simp add: file_chunks_def file_document_def split_documents_def Let_def comp_def
           split: option.splits)

text \<open>
  C6. No document that \<open>process_file\<close> returns has a stripped text shorter than the
  configured minimum, and none that build_index.py keeps is shorter than its fixed
  minimum of 10; in both, the texts returned are the splitter's whole output with the
  short ones filtered out, so the filter runs on the finished segmentation.
\<close>

theorem min_size_filter:
  "(\<forall>d \<in> set (process_file w cfg fp fh). min_size cfg \<le> int (length (strip (page_content d))))
   \<and> (\<forall>d \<in> set (kb_split_document w doc). 10 \<le> length (strip (page_content d)))
   \<and> map page_content (process_file w cfg fp fh) =
       filter (\<lambda>t. min_size cfg \<le> int (length (strip t)))
         (case file_chunks w cfg fp fh of None \<Rightarrow> [] | Some chunks \<Rightarrow> map page_content chunks)
   \<and> map page_content (kb_split_document w doc) =
       filter (\<lambda>t. 10 \<le> length (strip t)) (map page_content (split_documents w 2000 200 doc))"
proof (intro conjI ballI)
  fix d assume "d \<in> set (process_file w cfg fp fh)"
  from process_file_member [OF this]
  show "min_size cfg \<le> int (length (strip (page_content d)))" by auto
next
  fix d assume "d \<in> set (kb_split_document w doc)"
  from kb_split_document_member [OF this]
  show "10 \<le> length (strip (page_content d))" by auto
next
  show "map page_content (process_file w cfg fp fh) =
       filter (\<lambda>t. min_size cfg \<le> int (length (strip t)))
         (case file_chunks w cfg fp fh of None \<Rightarrow> [] | Some chunks \<Rightarrow> map page_content chunks)"
    by (simp add: process_file_unfold tag_chunks_content split: option.splits)
next
  have "map page_content (kb_split_document w doc) =
      filter (\<lambda>t. (10::int) \<le> int (length (strip t)))
        (map page_content (split_documents w 2000 200 doc))"
    by (simp add: kb_split_document_def filter_chunks_def tag_chunks_content)
  then show "map page_content (kb_split_document w doc) =
       filter (\<lambda>t. 10 \<le> length (strip t)) (map page_content (split_documents w 2000 200 doc))"
    by simp
qed

lemma notes_file_kept:
  "map page_content (process_file example_world example_config notes_txt notes_hash) =
     [''first paragraph'', ''third paragraph'']"
  by code_simp

lemma notes_doc_kept:
  "map page_content (kb_split_document example_world notes_doc) =
     [''first paragraph'', ''third paragraph'']"
  by code_simp

theorem min_size_filter_witness:
  "process_file example_world example_config notes_txt notes_hash \<noteq> []
   \<and> min_size example_config \<le> int (length (strip (page_content
        (hd (process_file example_world example_config notes_txt notes_hash)))))
   \<and> kb_split_document example_world notes_doc \<noteq> []
   \<and> 10 \<le> length (strip (page_content (hd (kb_split_document example_world notes_doc))))"
proof -
  have a: "process_file example_world example_config notes_txt notes_hash \<noteq> []"
    using notes_file_kept by auto
  have b: "kb_split_document example_world notes_doc \<noteq> []"
    using notes_doc_kept by auto
  from a have "hd (process_file example_world example_config notes_txt notes_hash)
      \<in> set (process_file example_world example_config notes_txt notes_hash)" by simp
  moreover from b have "hd (kb_split_document example_world notes_doc)
      \<in> set (kb_split_document example_world notes_doc)" by simp
  ultimately show ?thesis
    using a b min_size_filter [of example_world example_config notes_txt notes_hash notes_doc]
    by blast
qed

lemma notes_file_tags:
  "map chunk_index (process_file example_world example_config notes_txt notes_hash) = [Some 0, Some 2]
   \<and> map total_chunks (process_file example_world example_config notes_txt notes_hash) = [Some 3, Some 3]
   \<and> map chunk_id (process_file example_world example_config notes_txt notes_hash)
       = [Some ''notes_0'', Some ''notes_2'']"
  by code_simp

lemma notes_doc_tags:
  "map chunk_index (kb_split_document example_world notes_doc) = [Some 0, Some 2]
   \<and> map total_chunks (kb_split_document example_world notes_doc) = [Some 3, Some 3]
   \<and> map chunk_id (kb_split_document example_world notes_doc)
       = [Some ''notes.txt_0'', Some ''notes.txt_2'']"
  by code_simp

lemma tag_chunks_positions:
  "tag_chunks pre m n i cs =
     map (\<lambda>j. (cs ! (j - i))\<lparr>chunk_id := Some (pre @ ''_'' @ str_nat j),
                              chunk_index := Some j, total_chunks := Some n\<rparr>)
       (filter (\<lambda>j. m \<le> int (length (strip (page_content (cs ! (j - i))))))
          [i..<i + length cs])"
proof (induction cs arbitrary: i)
  case Nil
  show ?case by simp
next
  case (Cons c cs)
  let ?tag = "\<lambda>d j. d\<lparr>chunk_id := Some (pre @ ''_'' @ str_nat j),
                       chunk_index := Some j, total_chunks := Some n\<rparr>"
  let ?keep = "\<lambda>d. m \<le> int (length (strip (page_content d)))"
  define later where "later = [Suc i..<Suc i + length cs]"
  have "i < i + length (c # cs)" by simp
  from upt_conv_Cons [OF this]
  have up: "[i..<i + length (c # cs)] = i # later"
    by (simp add: later_def del: upt_Suc)
  have nth: "(c # cs) ! (j - i) = cs ! (j - Suc i)" if "j \<in> set later" for j
  proof -
    from that have "i < j" unfolding later_def by (simp only: set_upt atLeastLessThan_iff) arith
    then have "j - i = Suc (j - Suc i)" by simp
    then show ?thesis by simp
  qed
  have f: "filter (\<lambda>j. ?keep ((c # cs) ! (j - i))) later
         = filter (\<lambda>j. ?keep (cs ! (j - Suc i))) later"
    by (rule filter_cong) (simp_all add: nth)
  have g: "map (\<lambda>j. ?tag ((c # cs) ! (j - i)) j) (filter (\<lambda>j. ?keep (cs ! (j - Suc i))) later)
         = map (\<lambda>j. ?tag (cs ! (j - Suc i)) j) (filter (\<lambda>j. ?keep (cs ! (j - Suc i))) later)"
  proof (rule map_cong)
    fix j
    assume "j \<in> set (filter (\<lambda>j. ?keep (cs ! (j - Suc i))) later)"
    then have "j \<in> set later" by simp
    from nth [OF this]
    show "?tag ((c # cs) ! (j - i)) j = ?tag (cs ! (j - Suc i)) j"
      by (simp only:)
  qed (rule refl)
  have ih: "tag_chunks pre m n (Suc i) cs =
      map (\<lambda>j. ?tag (cs ! (j - Suc i)) j) (filter (\<lambda>j. ?keep (cs ! (j - Suc i))) later)"
    unfolding later_def by (rule Cons.IH)
  have rest: "tag_chunks pre m n (Suc i) cs =
      map (\<lambda>j. ?tag ((c # cs) ! (j - i)) j) (filter (\<lambda>j. ?keep ((c # cs) ! (j - i))) later)"
    by (simp only: ih f g)
  have "tag_chunks pre m n i (c # cs) =
      map (\<lambda>j. ?tag ((c # cs) ! (j - i)) j) (filter (\<lambda>j. ?keep ((c # cs) ! (j - i))) (i # later))"
    using rest by (cases "?keep c") simp_all
  then show ?case unfolding up .
qed

lemma filter_chunks_positions:
  "filter_chunks pre m chunks =
     map (\<lambda>i. (chunks ! i)\<lparr>chunk_id := Some (pre @ ''_'' @ str_nat i),
                            chunk_index := Some i, total_chunks := Some (length chunks)\<rparr>)
       (filter (\<lambda>i. m \<le> int (length (strip (page_content (chunks ! i))))) [0..<length chunks])"
  using tag_chunks_positions [of pre m "length chunks" 0 chunks]
  by (simp add: filter_chunks_def)

text \<open>
  C10. The chunks that are kept are the chunks of the splitter's output at the positions
  that pass the filter, in their order, and each carries its own position in that output
  as \<open>chunk_index\<close> and the length of that output as \<open>total_chunks\<close>, in update_index.py
  and in build_index.py alike; so the indices of the kept chunks are the positions that
  pass the filter and need not be contiguous. The kept chunks of \<open>notes.txt\<close>, whose
  short middle line is dropped, have the indices 0 and 2 and the total 3.
\<close>

theorem chunk_index_pre_filter:
  "(\<forall>chunks. file_chunks w cfg fp fh = Some chunks \<longrightarrow>
      process_file w cfg fp fh =
        map (\<lambda>i. (chunks ! i)\<lparr>chunk_id := Some (path_stem fp @ ''_'' @ str_nat i),
                               chunk_index := Some i, total_chunks := Some (length chunks)\<rparr>)
          (filter (\<lambda>i. min_size cfg \<le> int (length (strip (page_content (chunks ! i)))))
             [0..<length chunks])
      \<and> map chunk_index (process_file w cfg fp fh) =
          map Some (filter (\<lambda>i. min_size cfg \<le> int (length (strip (page_content (chunks ! i)))))
                      [0..<length chunks])
      \<and> (\<forall>d \<in> set (process_file w cfg fp fh).
          total_chunks d = Some (length chunks) \<and>
          (\<exists>i < length chunks. chunk_index d = Some i \<and>
                                page_content d = page_content (chunks ! i))))
   \<and> kb_split_document w doc =
        map (\<lambda>i. (split_documents w 2000 200 doc ! i)
                    \<lparr>chunk_id := Some (filename doc @ ''_'' @ str_nat i),
                     chunk_index := Some i,
                     total_chunks := Some (length (split_documents w 2000 200 doc))\<rparr>)
          (filter (\<lambda>i. 10 \<le> length (strip (page_content (split_documents w 2000 200 doc ! i))))
             [0..<length (split_documents w 2000 200 doc)])
   \<and> map chunk_index (kb_split_document w doc) =
        map Some (filter (\<lambda>i. 10 \<le> length (strip (page_content (split_documents w 2000 200 doc ! i))))
                    [0..<length (split_documents w 2000 200 doc)])
   \<and> (\<forall>d \<in> set (kb_split_document w doc).
          total_chunks d = Some (length (split_documents w 2000 200 doc)) \<and>
          (\<exists>i < length (split_documents w 2000 200 doc). chunk_index d = Some i \<and>
                page_content d = page_content (split_documents w 2000 200 doc ! i)))
   \<and> map chunk_index (process_file example_world example_config notes_txt notes_hash)
        = [Some 0, Some 2]
   \<and> map total_chunks (process_file example_world example_config notes_txt notes_hash)
        = [Some 3, Some 3]"
proof (intro conjI allI impI ballI)
  fix chunks
  assume c: "file_chunks w cfg fp fh = Some chunks"
  then show whole: "process_file w cfg fp fh =
        map (\<lambda>i. (chunks ! i)\<lparr>chunk_id := Some (path_stem fp @ ''_'' @ str_nat i),
                               chunk_index := Some i, total_chunks := Some (length chunks)\<rparr>)
          (filter (\<lambda>i. min_size cfg \<le> int (length (strip (page_content (chunks ! i)))))
             [0..<length chunks])"
    by (simp add: process_file_def filter_chunks_positions)
  show "map chunk_index (process_file w cfg fp fh) =
          map Some (filter (\<lambda>i. min_size cfg \<le> int (length (strip (page_content (chunks ! i)))))
                      [0..<length chunks])"
    unfolding whole by (simp add: comp_def)
next
  fix chunks d
  assume c: "file_chunks w cfg fp fh = Some chunks" and d: "d \<in> set (process_file w cfg fp fh)"
  from process_file_member [OF d] c obtain i where i: "i < length chunks"
    and e: "d = (chunks ! i)\<lparr>chunk_id := Some (path_stem fp @ ''_'' @ str_nat i),
                            chunk_index := Some i, total_chunks := Some (length chunks)\<rparr>"
    by auto
  from e show "total_chunks d = Some (length chunks)" by simp
  from i e show "\<exists>i < length chunks. chunk_index d = Some i \<and>
                                page_content d = page_content (chunks ! i)" by auto
next
  have filter_int: "filter (\<lambda>i. (10::int) \<le> int (length (strip (page_content
                        (split_documents w 2000 200 doc ! i)))))
             [0..<length (split_documents w 2000 200 doc)]
      = filter (\<lambda>i. 10 \<le> length (strip (page_content (split_documents w 2000 200 doc ! i))))
             [0..<length (split_documents w 2000 200 doc)]"
    by (rule filter_cong) simp_all
  show whole: "kb_split_document w doc =
        map (\<lambda>i. (split_documents w 2000 200 doc ! i)
                    \<lparr>chunk_id := Some (filename doc @ ''_'' @ str_nat i),
                     chunk_index := Some i,
                     total_chunks := Some (length (split_documents w 2000 200 doc))\<rparr>)
          (filter (\<lambda>i. 10 \<le> length (strip (page_content (split_documents w 2000 200 doc ! i))))
             [0..<length (split_documents w 2000 200 doc)])"
    unfolding kb_split_document_def filter_chunks_positions filter_int ..
  show "map chunk_index (kb_split_document w doc) =
        map Some (filter (\<lambda>i. 10 \<le> length (strip (page_content (split_documents w 2000 200 doc ! i))))
                    [0..<length (split_documents w 2000 200 doc)])"
    unfolding whole by (simp add: comp_def)
next
  fix d assume d: "d \<in> set (kb_split_document w doc)"
  from kb_split_document_member [OF d] obtain i
    where i: "i < length (split_documents w 2000 200 doc)"
    and e: "d = (split_documents w 2000 200 doc ! i)
                 \<lparr>chunk_id := Some (filename doc @ ''_'' @ str_nat i),
                  chunk_index := Some i,
                  total_chunks := Some (length (split_documents w 2000 200 doc))\<rparr>"
    by auto
  from e show "total_chunks d = Some (length (split_documents w 2000 200 doc))" by simp
  from i e show "\<exists>i < length (split_documents w 2000 200 doc). chunk_index d = Some i \<and>
                page_content d = page_content (split_documents w 2000 200 doc ! i)" by auto
next
  show "map chunk_index (process_file example_world example_config notes_txt notes_hash)
        = [Some 0, Some 2]" using notes_file_tags by simp
  show "map total_chunks (process_file example_world example_config notes_txt notes_hash)
        = [Some 3, Some 3]" using notes_file_tags by simp
qed

lemma notes_chunks_length:
  "map_option length (file_chunks example_world example_config notes_txt notes_hash) = Some 3"
  by code_simp

theorem chunk_index_pre_filter_witness:
  "(\<exists>chunks. file_chunks example_world example_config notes_txt notes_hash = Some chunks
       \<and> length chunks = 3
       \<and> map chunk_index (process_file example_world example_config notes_txt notes_hash) =
           map Some (filter (\<lambda>i. min_size example_config
                                     \<le> int (length (strip (page_content (chunks ! i)))))
                       [0..<length chunks]))
   \<and> process_file example_world example_config notes_txt notes_hash \<noteq> []
   \<and> total_chunks (hd (process_file example_world example_config notes_txt notes_hash)) = Some 3
   \<and> kb_split_document example_world notes_doc \<noteq> []
   \<and> total_chunks (hd (kb_split_document example_world notes_doc))
        = Some (length (split_documents example_world 2000 200 notes_doc))"
proof -
  from notes_chunks_length obtain chunks
    where c: "file_chunks example_world example_config notes_txt notes_hash = Some chunks"
      and l: "length chunks = 3" by auto
  have a: "process_file example_world example_config notes_txt notes_hash \<noteq> []"
    using notes_file_tags by auto
  have b: "kb_split_document example_world notes_doc \<noteq> []"
    using notes_doc_tags by auto
  from a have ha: "hd (process_file example_world example_config notes_txt notes_hash)
      \<in> set (process_file example_world example_config notes_txt notes_hash)" by simp
  from b have hb: "hd (kb_split_document example_world notes_doc)
      \<in> set (kb_split_document example_world notes_doc)" by simp
  note t = chunk_index_pre_filter [of example_world example_config notes_txt notes_hash notes_doc]
  from t c have t1: "map chunk_index (process_file example_world example_config notes_txt notes_hash) =
           map Some (filter (\<lambda>i. min_size example_config
                                     \<le> int (length (strip (page_content (chunks ! i)))))
                       [0..<length chunks])"
    and t2: "\<forall>d \<in> set (process_file example_world example_config notes_txt notes_hash).
          total_chunks d = Some (length chunks)"
    by blast+
  from t have t3: "\<forall>d \<in> set (kb_split_document example_world notes_doc).
          total_chunks d = Some (length (split_documents example_world 2000 200 notes_doc))"
    by blast
  from t2 ha have "total_chunks (hd (process_file example_world example_config notes_txt notes_hash))
      = Some (length chunks)" by blast
  moreover from t3 hb have "total_chunks (hd (kb_split_document example_world notes_doc))
        = Some (length (split_documents example_world 2000 200 notes_doc))" by blast
  ultimately show ?thesis using c l a b t1 by auto
qed

text \<open>
  C5, as the claim states it, fails on build_index.py: the chunks of \<open>notes.txt\<close> get
  the identifiers \<open>notes.txt_0\<close> and \<open>notes.txt_2\<close>, written from the file name with
  its extension, where the stem is \<open>notes\<close>.
\<close>

theorem chunk_id_stem_counterexample:
  "chunk_id (hd (kb_split_document example_world notes_doc)) = Some ''notes.txt_0''
   \<and> path_stem (filename notes_doc) @ ''_'' @ str_nat 0 = ''notes_0''"
  by code_simp

text \<open>
  C5, amended. Every chunk that \<open>process_file\<close> returns is a chunk of the splitter's
  output at some position \<open>i\<close> (counted before the filter) with the identifier
  \<open>stem_i\<close>; build_index.py writes \<open>filename_i\<close>, with the extension. In both the
  identifiers of one file's chunks are pairwise different, and those of
  \<open>process_file\<close> do not depend on the time of processing or on the hash passed in.
\<close>

theorem chunk_id_format:
  "(\<forall>d \<in> set (process_file w cfg fp fh).
      \<exists>chunks i. file_chunks w cfg fp fh = Some chunks \<and> i < length chunks \<and>
         page_content d = page_content (chunks ! i) \<and> chunk_index d = Some i \<and>
         chunk_id d = Some (path_stem fp @ ''_'' @ str_nat i))
   \<and> (\<forall>d \<in> set (kb_split_document w doc).
      \<exists>i < length (split_documents w 2000 200 doc).
         page_content d = page_content (split_documents w 2000 200 doc ! i) \<and>
         chunk_index d = Some i \<and>
         chunk_id d = Some (filename doc @ ''_'' @ str_nat i))
   \<and> distinct (map chunk_id (process_file w cfg fp fh))
   \<and> distinct (map chunk_id (kb_split_document w doc))
   \<and> map chunk_id (process_file (w\<lparr>now := t\<rparr>) cfg fp fh') = map chunk_id (process_file w cfg fp fh)"
proof (intro conjI ballI)
  fix d assume d: "d \<in> set (process_file w cfg fp fh)"
  from process_file_member [OF d] obtain chunks i
    where "file_chunks w cfg fp fh = Some chunks" "i < length chunks"
      "d = (chunks ! i)\<lparr>chunk_id := Some (path_stem fp @ ''_'' @ str_nat i),
                        chunk_index := Some i, total_chunks := Some (length chunks)\<rparr>"
    by blast
  then show "\<exists>chunks i. file_chunks w cfg fp fh = Some chunks \<and> i < length chunks \<and>
         page_content d = page_content (chunks ! i) \<and> chunk_index d = Some i \<and>
         chunk_id d = Some (path_stem fp @ ''_'' @ str_nat i)" by auto
next
  fix d assume d: "d \<in> set (kb_split_document w doc)"
  from kb_split_document_member [OF d] obtain i
    where "i < length (split_documents w 2000 200 doc)"
      "d = (split_documents w 2000 200 doc ! i)
                 \<lparr>chunk_id := Some (filename doc @ ''_'' @ str_nat i),
                  chunk_index := Some i,
                  total_chunks := Some (length (split_documents w 2000 200 doc))\<rparr>"
    by blast
  then show "\<exists>i < length (split_documents w 2000 200 doc).
         page_content d = page_content (split_documents w 2000 200 doc ! i) \<and>
         chunk_index d = Some i \<and>
         chunk_id d = Some (filename doc @ ''_'' @ str_nat i)" by auto
next
  show "distinct (map chunk_id (process_file w cfg fp fh))"
    by (simp add: process_file_unfold tag_chunks_distinct split: option.splits)
next
  show "distinct (map chunk_id (kb_split_document w doc))"
    by (simp add: kb_split_document_def filter_chunks_def tag_chunks_distinct)
next
  show "map chunk_id (process_file (w\<lparr>now := t\<rparr>) cfg fp fh') = map chunk_id (process_file w cfg fp fh)"
  proof (cases "file_chunks w cfg fp fh")
    case None
    with file_chunks_text [where w = w and t = t and cfg = cfg and fp = fp and fh' = fh' and fh = fh] show ?thesis
      by (simp add: process_file_unfold)
  next
    case (Some chunks)
    with file_chunks_text [where w = w and t = t and cfg = cfg and fp = fp and fh' = fh' and fh = fh] obtain chunks'
      where c': "file_chunks (w\<lparr>now := t\<rparr>) cfg fp fh' = Some chunks'"
        and e: "map page_content chunks' = map page_content chunks" by auto
    from e have "length chunks' = length chunks" by (rule map_eq_imp_length_eq)
    with Some c' tag_chunks_ids_only_text [OF e] show ?thesis
      by (simp add: process_file_unfold)
  qed
qed

theorem chunk_id_format_witness:
  "process_file example_world example_config notes_txt notes_hash \<noteq> []
   \<and> (\<exists>i. chunk_index (hd (process_file example_world example_config notes_txt notes_hash)) = Some i
       \<and> chunk_id (hd (process_file example_world example_config notes_txt notes_hash))
           = Some (path_stem notes_txt @ ''_'' @ str_nat i))
   \<and> kb_split_document example_world notes_doc \<noteq> []
   \<and> (\<exists>i. chunk_index (hd (kb_split_document example_world notes_doc)) = Some i
       \<and> chunk_id (hd (kb_split_document example_world notes_doc))
           = Some (filename notes_doc @ ''_'' @ str_nat i))"
proof -
  have a: "process_file example_world example_config notes_txt notes_hash \<noteq> []"
    using notes_file_tags by auto
  have b: "kb_split_document example_world notes_doc \<noteq> []"
    using notes_doc_tags by auto
  from a have ha: "hd (process_file example_world example_config notes_txt notes_hash)
      \<in> set (process_file example_world example_config notes_txt notes_hash)" by simp
  from b have hb: "hd (kb_split_document example_world notes_doc)
      \<in> set (kb_split_document example_world notes_doc)" by simp
  note t = chunk_id_format [of example_world example_config notes_txt notes_hash notes_doc]
  from t ha have "\<exists>i. chunk_index (hd (process_file example_world example_config notes_txt notes_hash)) = Some i
       \<and> chunk_id (hd (process_file example_world example_config notes_txt notes_hash))
           = Some (path_stem notes_txt @ ''_'' @ str_nat i)" by blast
  moreover from t hb have "\<exists>i. chunk_index (hd (kb_split_document example_world notes_doc)) = Some i
       \<and> chunk_id (hd (kb_split_document example_world notes_doc))
           = Some (filename notes_doc @ ''_'' @ str_nat i)" by blast
  ultimately show ?thesis using a b by simp
qed

section \<open>The scan and the cache\<close>










section \<open>The loop over the selected files\<close>

lemma process_file_needs_key:
  "relative_to fp (script_dir w) = None \<Longrightarrow> process_file w cfg fp fh = []"
  by (auto simp: process_file_def file_chunks_def file_document_def Let_def
           split: option.splits if_splits)


lemma process_files_chunks:
  "fst (process_files w cfg fs (ac, st, c)) =
     ac @ concat (map (\<lambda>(fp, fh). process_file w cfg fp fh) fs)"
proof (induction fs arbitrary: ac st c)
  case Nil
  show ?case by simp
next
  case (Cons f fs)
  obtain fp fh where f: "f = (fp, fh)" by (cases f)
  show ?case
    by (simp add: f Let_def Cons.IH split: option.splits)
qed

lemma process_files_errors:
  "errors (fst (snd (process_files w cfg fs (ac, st, c)))) = errors st"
proof (induction fs arbitrary: ac st c)
  case Nil
  show ?case by simp
next
  case (Cons f fs)
  obtain fp fh where f: "f = (fp, fh)" by (cases f)
  show ?case
    by (simp add: f Let_def Cons.IH process_file_needs_key split: option.splits)
qed

lemma process_files_chunks_added:
  "chunks_added (fst (snd (process_files w cfg fs (ac, st, c)))) = chunks_added st"
proof (induction fs arbitrary: ac st c)
  case Nil
  show ?case by simp
next
  case (Cons f fs)
  obtain fp fh where f: "f = (fp, fh)" by (cases f)
  show ?case
    by (simp add: f Let_def Cons.IH split: option.splits)
qed



section \<open>One run of the update\<close>









lemma run_update_errors:
  "errors (snd (run_update w cfg m)) =
     (case scan_for_new_files w cfg (processed_files_cache m) of Inl e \<Rightarrow> 1 | Inr found \<Rightarrow> 0)"
proof (cases "scan_for_new_files w cfg (processed_files_cache m)")
  case (Inl e)
  then show ?thesis by (simp add: run_update_def)
next
  case (Inr found)
  obtain ac st c where p: "process_files w cfg found ([], stats0, processed_files_cache m) = (ac, st, c)"
    by (cases "process_files w cfg found ([], stats0, processed_files_cache m)")
  from process_files_errors [of w cfg found "[]" stats0 "processed_files_cache m"] p
  have "errors st = 0" by (simp add: stats0_def)
  with Inr p show ?thesis
    by (auto simp: run_update_def Let_def stats0_def split: prod.splits)
qed







section \<open>Files that yield no chunk, and the exit code\<close>









text \<open>
  C3. The run over the example folder, in which \<open>locked.txt\<close> cannot be read: the scan
  selects the file, with the empty string for its hash, \<open>process_file\<close> returns no chunk
  for it, the run ends with an error count of 0 and \<open>main\<close> exits with 0. The cache has
  no entry for the file afterwards and the next scan selects it again.
\<close>

theorem unreadable_file_not_counted:
  "read_bytes example_world ''/srv/docs/locked.txt'' = None
   \<and> scan_for_new_files example_world example_config (processed_files_cache example_manager) =
       Inr [(''/srv/docs/notes.txt'', notes_hash), (''/srv/docs/locked.txt'', []),
            (''/srv/docs/blank.txt'', ''md5:   ''), (''/srv/docs/short.txt'', ''md5:tiny'')]
   \<and> process_file example_world example_config ''/srv/docs/locked.txt'' [] = []
   \<and> snd (run_update example_world example_config example_manager) =
       \<lparr>files_processed = 1, chunks_added = 2, errors = 0,
        new_files = [(''docs/notes.txt'', 2)]\<rparr>
   \<and> main example_world (Some example_config) None [] = 0
   \<and> processed_files_cache (fst (run_update example_world example_config example_manager))
        ''docs/locked.txt'' = None
   \<and> scan_for_new_files example_world example_config
        (processed_files_cache (fst (run_update example_world example_config example_manager))) =
       Inr [(''/srv/docs/locked.txt'', []), (''/srv/docs/blank.txt'', ''md5:   ''),
            (''/srv/docs/short.txt'', ''md5:tiny'')]"
  by code_simp

text \<open>
  C7, as the claim states it, fails where the run records no error and the result file
  cannot be written: \<open>main\<close> exits with 1.
\<close>

theorem exit_code_counterexample:
  "errors (snd (run_update (example_world\<lparr>results_writable := False\<rparr>) example_config
                  \<lparr>processed_files_cache = load_processed_files None, cache_file = None,
                   vector_db = []\<rparr>)) = 0
   \<and> main (example_world\<lparr>results_writable := False\<rparr>) (Some example_config) None [] = 1"
  by code_simp

text \<open>
  C7, amended. \<open>main\<close> exits with 0 or with 1, and it exits with 0 exactly when the
  manager was constructed, the run recorded no error and the result file was written;
  so it exits with 1 whenever the run recorded an error.
\<close>

theorem main_exit_code:
  "(main w cfg_file disk_cache db = 0 \<or> main w cfg_file disk_cache db = 1)
   \<and> (main w cfg_file disk_cache db = 0 \<longleftrightarrow>
        (\<exists>cfg. cfg_file = Some cfg \<and> results_writable w \<and>
           errors (snd (run_update w cfg
                          \<lparr>processed_files_cache = load_processed_files disk_cache,
                           cache_file = disk_cache, vector_db = db\<rparr>)) = 0))"
  by (cases cfg_file) (auto simp: main_def split: prod.splits)

theorem main_exit_code_witness:
  "results_writable example_world
   \<and> errors (snd (run_update example_world example_config
                    \<lparr>processed_files_cache = load_processed_files None, cache_file = None,
                     vector_db = []\<rparr>)) = 0
   \<and> main example_world (Some example_config) None [] = 0"
proof -
  have a: "results_writable example_world" by code_simp
  have b: "errors (snd (run_update example_world example_config
                    \<lparr>processed_files_cache = load_processed_files None, cache_file = None,
                     vector_db = []\<rparr>)) = 0" by code_simp
  from a b main_exit_code [of example_world "Some example_config" None "[]"]
  show ?thesis by blast
qed

section \<open>The interval loop of the scheduler\<close>

lemma wait_interval_first_clear:
  "\<not> flag (t + k) \<Longrightarrow> \<forall>j < k. flag (t + j) \<Longrightarrow> k \<le> n \<Longrightarrow> wait_interval flag n t = t + k"
proof (induction n arbitrary: t k)
  case 0
  then show ?case by simp
next
  case (Suc n)
  show ?case
  proof (cases k)
    case 0
    with Suc.prems show ?thesis by simp
  next
    case (Suc k')
    with Suc.prems have "flag t" by (metis add.right_neutral zero_less_Suc)
    moreover from Suc Suc.prems have "\<not> flag (Suc t + k')" by simp
    moreover from Suc Suc.prems have "\<forall>j < k'. flag (Suc t + j)"
      by (metis Suc_less_eq add_Suc_shift)
    moreover from Suc Suc.prems have "k' \<le> n" by simp
    ultimately show ?thesis using Suc.IH [of "Suc t" k'] Suc by simp
  qed
qed

lemma wait_interval_bounds: "t \<le> wait_interval flag n t \<and> wait_interval flag n t \<le> t + n"
proof (induction n arbitrary: t)
  case 0
  show ?case by simp
next
  case (Suc n)
  from Suc [of "Suc t"] show ?case by simp
qed

text \<open>
  The loop is left only at a second at which the flag is read as cleared, whatever is
  raised in its rounds; while the flag stays set, no amount of fuel ends it.
\<close>

lemma interval_worker_exit:
  "interval_worker fuel tm im c t = Some (t', c') \<Longrightarrow> \<not> running tm t' \<and> t \<le> t' \<and> c \<le> c'"
proof (induction fuel arbitrary: c t)
  case 0
  then show ?case by simp
next
  case (Suc fuel)
  show ?case
  proof (cases "running tm t")
    case False
    with Suc.prems show ?thesis by simp
  next
    case True
    let ?t1 = "t + run_seconds tm c"
    let ?t2 = "if run_raises tm c then ?t1 + 60
               else (case interval_seconds im of
                       FloatNum d e \<Rightarrow> ?t1 + 60
                     | IntNum n \<Rightarrow> wait_interval (running tm) (nat n) ?t1)"
    from True Suc.prems have t2: "interval_worker fuel tm im (Suc c) ?t2 = Some (t', c')"
      by (simp add: Let_def split: if_splits number.splits)
    have "?t1 \<le> ?t2"
      using wait_interval_bounds [of ?t1 "running tm"]
      by (simp split: number.splits)
    then have le: "t \<le> ?t2" by (rule add_leD1)
    from Suc.IH [OF t2] le show ?thesis by simp
  qed
qed

lemma interval_worker_running:
  "\<forall>t. running tm t \<Longrightarrow> interval_worker fuel tm im c t = None"
  by (induction fuel arbitrary: c t) (simp_all add: Let_def split: number.splits)

text \<open>
  C8. With \<open>interval_minutes: 0.5\<close> in the configuration, \<open>range(interval_seconds)\<close>
  raises in every cycle and the handler sleeps 60 seconds without reading the flag: on
  the example timeline, where the flag is cleared at second 5, the loop is left at second
  60, after one cycle. With \<open>interval_minutes: 1\<close> the wait reads the flag every second
  and the loop is left at second 5.
\<close>

theorem stop_during_error_pause:
  "interval_seconds (Some (FloatNum 5 1)) = FloatNum 300 1
   \<and> interval_worker 2 example_timeline (Some (FloatNum 5 1)) 0 0 = Some (60, 1)
   \<and> interval_worker 2 example_timeline (Some (IntNum 1)) 0 0 = Some (5, 1)"
  by code_simp

end
